theory Spec2Isabelle
  imports Main "HOL-Library.Multiset"
begin

section \<open>Error codes, log levels and platform values\<close>

text \<open>
  Modelled from the spec: the enum \<open>sr_error_t\<close> is declared in a header that is not among the
  sources. The constructors are the codes that \<open>log.h\<close> names in its macros, \<open>SR_ERR_OK\<close> for
  the success status of the spec, and \<open>SR_ERR_OTHER\<close> for "any domain-specific kind passed
  directly to the generic constructor".
\<close>

datatype sr_error_t =
    SR_ERR_OK
  | SR_ERR_INVAL_ARG
  | SR_ERR_SYS
  | SR_ERR_NO_MEMORY
  | SR_ERR_INTERNAL
  | SR_ERR_VALIDATION_FAILED
  | SR_ERR_TIME_OUT
  | SR_ERR_OTHER nat

text \<open>
  Modelled from the spec: the enum \<open>sr_log_level_t\<close> is declared in a header that is not among
  the sources. The spec orders the levels error, warning, info, debug from most to least
  severe, with a lower number for a more important level, and lets a threshold be "none" to
  disable a sink. \<open>log.h\<close> names \<open>SR_LL_WRN\<close>, \<open>SR_LL_INF\<close> and \<open>SR_LL_DBG\<close>.
\<close>

datatype sr_log_level_t = SR_LL_NONE | SR_LL_ERR | SR_LL_WRN | SR_LL_INF | SR_LL_DBG

fun ll_rank :: "sr_log_level_t \<Rightarrow> nat" where
  "ll_rank SR_LL_NONE = 0"
| "ll_rank SR_LL_ERR = 1"
| "ll_rank SR_LL_WRN = 2"
| "ll_rank SR_LL_INF = 3"
| "ll_rank SR_LL_DBG = 4"

text \<open>
  \<open>ETIMEDOUT\<close> comes from the platform's \<open>errno.h\<close>; 110 is its value on Linux. No theorem
  below depends on the number. \<open>strerror\<close> is the platform's too and is passed to the macros
  that call it as a function from error numbers to texts.
\<close>

definition ETIMEDOUT :: int where
  "ETIMEDOUT = 110"

text \<open>A sample \<open>strerror\<close> (the texts of glibc for two error numbers), to run the model.\<close>

definition strerror_glibc :: "int \<Rightarrow> string" where
  "strerror_glibc e =
     (if e = 110 then ''Connection timed out''
      else if e = 22 then ''Invalid argument''
      else ''Unknown error'')"

section \<open>Message rendering\<close>

text \<open>
  The variable arguments of a format call, and the part of \<open>printf\<close> formatting that the
  macros modelled here use: \<open>%s\<close> takes the next argument, \<open>%%\<close> is a percent sign, every
  other character is copied. A \<open>%s\<close> with no string argument to take is outside the
  contract of the C function (undefined behaviour), and any other directive is outside this
  model; both render nothing here.
\<close>

datatype fmt_arg = Str string | Num int

fun vasprintf :: "string \<Rightarrow> fmt_arg list \<Rightarrow> string" where
  "vasprintf [] vargs = []"
| "vasprintf [c] vargs = [c]"
| "vasprintf (c # d # fmt) vargs =
     (if c = CHR ''%'' then
        (if d = CHR ''s'' then
           (case vargs of
              Str s # rest \<Rightarrow> s @ vasprintf fmt rest
            | _ \<Rightarrow> vasprintf fmt (tl vargs))
         else if d = CHR ''%'' then CHR ''%'' # vasprintf fmt vargs
         else vasprintf fmt vargs)
      else c # vasprintf (d # fmt) vargs)"

section \<open>Error records and chains\<close>

text \<open>
  Modelled from the spec: the structs \<open>sr_error_info_err_t\<close> and \<open>sr_error_info_t\<close> are declared
  in a header that is not among the sources. A record has a code, a fully rendered message
  and an optional payload (a format tag and opaque data, the \<open>err_format\<close> and \<open>err_data\<close>
  arguments of \<open>sr_errinfo_add\<close>); a chain is the ordered sequence of its records, oldest
  first. A chain handle (\<open>sr_error_info_t *\<close>) is \<open>None\<close> for \<open>NULL\<close>.
\<close>

record sr_error_info_err_t =
  err_code :: sr_error_t
  message :: string
  error_format :: "string option"
  error_data :: "string option"

record sr_error_info_t =
  err :: "sr_error_info_err_t list"

definition records :: "sr_error_info_t option \<Rightarrow> sr_error_info_err_t list" where
  "records err_info = (case err_info of None \<Rightarrow> [] | Some ei \<Rightarrow> err ei)"

definition err_count :: "sr_error_info_t option \<Rightarrow> nat" where
  "err_count err_info = length (records err_info)"

section \<open>Log dispatcher\<close>

text \<open>
  The three process-wide variables that \<open>log.h\<close> declares (\<open>sr_stderr_ll\<close>, \<open>sr_syslog_ll\<close>,
  \<open>sr_lcb\<close>: whether a callback is registered), and what the sinks have received so far.
  \<open>renders\<close> counts the renderings of a format that \<open>sr_log\<close> has done.
\<close>

record sr_log_state =
  sr_stderr_ll :: sr_log_level_t
  sr_syslog_ll :: sr_log_level_t
  sr_lcb :: bool
  stderr_out :: "(sr_log_level_t \<times> string) list"
  syslog_out :: "(sr_log_level_t \<times> string) list"
  lcb_out :: "(bool \<times> sr_log_level_t \<times> string) list"
  renders :: nat

text \<open>
  Modelled from the spec: the comparison of a level with a sink's threshold is not in the
  sources. It is "at least as severe as", a lower number being more important.
\<close>

definition admits :: "sr_log_level_t \<Rightarrow> sr_log_level_t \<Rightarrow> bool" where
  "admits threshold ll = (ll_rank ll \<le> ll_rank threshold)"

text \<open>
  Modelled from the spec: the threshold of the callback sink is "implied by presence of a
  registered callback": a registered callback admits every level, no callback admits none.
\<close>

definition sr_lcb_ll :: "sr_log_state \<Rightarrow> sr_log_level_t" where
  "sr_lcb_ll st = (if sr_lcb st then SR_LL_DBG else SR_LL_NONE)"

text \<open>
  Modelled from the spec: the body of \<open>sr_log_msg\<close> is not among the sources (\<open>log.h\<close> declares
  it). Each sink, on its own, compares the level with its threshold and receives the text
  if admitted; the callback also receives the plugin flag.
\<close>

definition sr_log_msg :: "bool \<Rightarrow> sr_log_level_t \<Rightarrow> string \<Rightarrow> sr_log_state \<Rightarrow> sr_log_state" where
  "sr_log_msg plugin ll msg st =
     st\<lparr>stderr_out := stderr_out st @ (if admits (sr_stderr_ll st) ll then [(ll, msg)] else []),
        syslog_out := syslog_out st @ (if admits (sr_syslog_ll st) ll then [(ll, msg)] else []),
        lcb_out := lcb_out st @ (if admits (sr_lcb_ll st) ll then [(plugin, ll, msg)] else [])\<rparr>"

text \<open>
  Modelled from the spec: the body of \<open>sr_log\<close> is not among the sources (\<open>log.h\<close> declares it).
  It renders the message once and hands the rendered text to the three sinks.
\<close>

definition sr_log :: "sr_log_level_t \<Rightarrow> string \<Rightarrow> fmt_arg list \<Rightarrow> sr_log_state \<Rightarrow> sr_log_state" where
  "sr_log ll format vargs st =
     sr_log_msg False ll (vasprintf format vargs) (st\<lparr>renders := renders st + 1\<rparr>)"

section \<open>Record construction\<close>

text \<open>
  Modelled from the spec: the body of \<open>sr_errinfo_add\<close> is not among the sources (\<open>log.h\<close>
  declares it). It renders the message, constructs a record and appends it to the chain of
  the handle, creating the chain when there is none. Memory allocation is taken to succeed,
  and \<open>msg_format\<close> is a format string (not \<open>NULL\<close>).
\<close>

definition sr_errinfo_add ::
  "sr_error_info_t option \<Rightarrow> sr_error_t \<Rightarrow> string option \<Rightarrow> string option \<Rightarrow> string \<Rightarrow>
   fmt_arg list \<Rightarrow> sr_error_info_t option" where
  "sr_errinfo_add err_info code err_format err_data msg_format vargs =
     Some \<lparr>err = records err_info @
       [\<lparr>err_code = code, message = vasprintf msg_format vargs,
         error_format = err_format, error_data = err_data\<rparr>]\<rparr>"

text \<open>
  Modelled from the spec: the body of \<open>sr_errinfo_new\<close> is not among the sources. Its comment
  in \<open>log.h\<close> reads "Log the error and add the error into an error info structure": the
  rendered message goes to the log dispatcher at error level and the record, with no
  payload, to the chain.
\<close>

definition sr_errinfo_new ::
  "sr_error_info_t option \<Rightarrow> sr_error_t \<Rightarrow> string \<Rightarrow> fmt_arg list \<Rightarrow> sr_log_state \<Rightarrow>
   sr_error_info_t option \<times> sr_log_state" where
  "sr_errinfo_new err_info code msg_format vargs st =
     (sr_errinfo_add err_info code None None msg_format vargs,
      sr_log_msg False SR_LL_ERR (vasprintf msg_format vargs) st)"

text \<open>
  The macros \<open>SR_ERRINFO_LOCK\<close> and \<open>SR_ERRINFO_COND\<close> of \<open>log.h\<close> (lines 24 to 27). \<open>func\<close> is
  the name of the primitive that failed and \<open>ret\<close> its return value.
\<close>

definition SR_ERRINFO_LOCK ::
  "(int \<Rightarrow> string) \<Rightarrow> sr_error_info_t option \<Rightarrow> string \<Rightarrow> int \<Rightarrow> sr_log_state \<Rightarrow>
   sr_error_info_t option \<times> sr_log_state" where
  "SR_ERRINFO_LOCK strerror err_info func ret st =
     sr_errinfo_new err_info (if ret = ETIMEDOUT then SR_ERR_TIME_OUT else SR_ERR_INTERNAL)
       ''Locking a mutex failed (%s: %s).'' [Str func, Str (strerror ret)] st"

definition SR_ERRINFO_COND ::
  "(int \<Rightarrow> string) \<Rightarrow> sr_error_info_t option \<Rightarrow> string \<Rightarrow> int \<Rightarrow> sr_log_state \<Rightarrow>
   sr_error_info_t option \<times> sr_log_state" where
  "SR_ERRINFO_COND strerror err_info func ret st =
     sr_errinfo_new err_info (if ret = ETIMEDOUT then SR_ERR_TIME_OUT else SR_ERR_INTERNAL)
       ''Waiting on a conditional variable failed (%s: %s).'' [Str func, Str (strerror ret)] st"

text \<open>A log state to run the model: both thresholds at error, no callback, nothing logged.\<close>

definition st0 :: sr_log_state where
  "st0 = \<lparr>sr_stderr_ll = SR_LL_ERR, sr_syslog_ll = SR_LL_ERR, sr_lcb = False,
          stderr_out = [], syslog_out = [], lcb_out = [], renders = 0\<rparr>"

section \<open>API boundary\<close>

text \<open>
  Modelled from the spec: the struct \<open>sr_session_ctx_t\<close> is declared in a header that is not
  among the sources. Of a session, only the chain it stores matters here.
\<close>

record sr_session_ctx_t =
  sess_err_info :: "sr_error_info_t option"

text \<open>The messages of the records of a chain, logged at error level, oldest first.\<close>

fun log_records :: "sr_error_info_err_t list \<Rightarrow> sr_log_state \<Rightarrow> sr_log_state" where
  "log_records [] st = st"
| "log_records (e # es) st = log_records es (sr_log_msg False SR_LL_ERR (message e) st)"

text \<open>
  Modelled from the spec: the body of \<open>sr_api_ret\<close> is not among the sources (\<open>log.h\<close> declares
  it: "Set error info to a session and return corresponding error code, if any"). With an
  empty or absent chain it returns the success status and leaves the chain stored on the
  session empty. Otherwise it stores the chain on the session, logs the message of every
  record at error level, and returns the code of the first record.
\<close>

definition sr_api_ret ::
  "sr_session_ctx_t \<Rightarrow> sr_error_info_t option \<Rightarrow> sr_log_state \<Rightarrow>
   sr_error_t \<times> sr_session_ctx_t \<times> sr_log_state" where
  "sr_api_ret session err_info st =
     (case records err_info of
        [] \<Rightarrow> (SR_ERR_OK, session\<lparr>sess_err_info := None\<rparr>, st)
      | e # es \<Rightarrow> (err_code e, session\<lparr>sess_err_info := err_info\<rparr>, log_records (e # es) st))"

text \<open>
  The macro \<open>SR_CHECK_ARG_APIRET\<close> of \<open>log.h\<close> (lines 44 and 45), a statement of an API
  function: \<open>func\<close> is the function's name (\<open>__func__\<close>) and \<open>rest\<close> what the function
  does after the check. When \<open>cond\<close> holds, the macro returns from the function.
\<close>

definition invalid_arguments_format :: string where
  "invalid_arguments_format =
     ''Invalid arguments for function '' @ [CHR 0x22] @ ''%s'' @ [CHR 0x22] @ ''.''"

definition SR_CHECK_ARG_APIRET ::
  "bool \<Rightarrow> sr_session_ctx_t \<Rightarrow> sr_error_info_t option \<Rightarrow> string \<Rightarrow>
   (sr_session_ctx_t \<Rightarrow> sr_error_info_t option \<Rightarrow> sr_log_state \<Rightarrow>
      sr_error_t \<times> sr_session_ctx_t \<times> sr_log_state) \<Rightarrow>
   sr_log_state \<Rightarrow> sr_error_t \<times> sr_session_ctx_t \<times> sr_log_state" where
  "SR_CHECK_ARG_APIRET cond session err_info func rest st =
     (if cond then
        (case sr_errinfo_new err_info SR_ERR_INVAL_ARG invalid_arguments_format [Str func] st of
           (err_info', st') \<Rightarrow> sr_api_ret session err_info' st')
      else rest session err_info st)"

text \<open>Two ways an API function may go on after the check, to run the model.\<close>

definition rest_ok ::
  "sr_session_ctx_t \<Rightarrow> sr_error_info_t option \<Rightarrow> sr_log_state \<Rightarrow>
   sr_error_t \<times> sr_session_ctx_t \<times> sr_log_state" where
  "rest_ok session err_info st = sr_api_ret session err_info st"

definition rest_sys ::
  "sr_session_ctx_t \<Rightarrow> sr_error_info_t option \<Rightarrow> sr_log_state \<Rightarrow>
   sr_error_t \<times> sr_session_ctx_t \<times> sr_log_state" where
  "rest_sys session err_info st =
     (case sr_errinfo_new err_info SR_ERR_SYS ''%s() failed (%s).'' [Str ''open'', Str ''Unknown error''] st of
        (err_info', st') \<Rightarrow> sr_api_ret session err_info' st')"

section \<open>Merging chains\<close>

text \<open>
  Modelled from the spec: the body of \<open>sr_errinfo_merge\<close> is not among the sources (\<open>log.h\<close>
  declares it, the merged chain being "unusable afterwards"). Every record of the source
  moves to the end of the destination's chain, in order; a destination that does not exist
  is created; an empty source changes nothing. The second component is the source after
  the call: consumed, with no record left.
\<close>

definition sr_errinfo_merge ::
  "sr_error_info_t option \<Rightarrow> sr_error_info_t option \<Rightarrow>
   sr_error_info_t option \<times> sr_error_info_t option" where
  "sr_errinfo_merge err_info err_info2 =
     (if records err_info2 = [] then (err_info, None)
      else (Some \<lparr>err = records err_info @ records err_info2\<rparr>, None))"

text \<open>Sample records and chains, to run the model.\<close>

definition rec_sys :: sr_error_info_err_t where
  "rec_sys = \<lparr>err_code = SR_ERR_SYS, message = ''open() failed (Unknown error).'',
     error_format = None, error_data = None\<rparr>"

definition rec_val :: sr_error_info_err_t where
  "rec_val = \<lparr>err_code = SR_ERR_VALIDATION_FAILED, message = ''Validation failed.'',
     error_format = None, error_data = None\<rparr>"

definition rec_int :: sr_error_info_err_t where
  "rec_int = \<lparr>err_code = SR_ERR_INTERNAL, message = ''Internal error (log.c:1).'',
     error_format = None, error_data = None\<rparr>"

definition session0 :: sr_session_ctx_t where
  "session0 = \<lparr>sess_err_info = Some \<lparr>err = [rec_int]\<rparr>\<rparr>"

section \<open>Rendering of the formats of \<open>log.h\<close>\<close>

lemma records_simps:
  "records None = []" "records (Some ei) = err ei"
  by (simp_all add: records_def)

lemma vasprintf_lock:
  "vasprintf ''Locking a mutex failed (%s: %s).'' [Str f, Str e] =
     ''Locking a mutex failed ('' @ f @ '': '' @ e @ '').''"
  by simp

lemma vasprintf_cond:
  "vasprintf ''Waiting on a conditional variable failed (%s: %s).'' [Str f, Str e] =
     ''Waiting on a conditional variable failed ('' @ f @ '': '' @ e @ '').''"
  by simp

lemma vasprintf_invalid_arguments:
  "vasprintf invalid_arguments_format [Str f] =
     ''Invalid arguments for function '' @ [CHR 0x22] @ f @ [CHR 0x22] @ ''.''"
  by (simp add: invalid_arguments_format_def)

section \<open>Lock and condition-wait failures\<close>

lemma SR_ERRINFO_LOCK_chain:
  "fst (SR_ERRINFO_LOCK se ei func ret st) =
     Some \<lparr>err = records ei @
       [\<lparr>err_code = (if ret = ETIMEDOUT then SR_ERR_TIME_OUT else SR_ERR_INTERNAL),
         message = ''Locking a mutex failed ('' @ func @ '': '' @ se ret @ '').'',
         error_format = None, error_data = None\<rparr>]\<rparr>"
  unfolding SR_ERRINFO_LOCK_def sr_errinfo_new_def sr_errinfo_add_def vasprintf_lock
  by simp

lemma SR_ERRINFO_COND_chain:
  "fst (SR_ERRINFO_COND se ei func ret st) =
     Some \<lparr>err = records ei @
       [\<lparr>err_code = (if ret = ETIMEDOUT then SR_ERR_TIME_OUT else SR_ERR_INTERNAL),
         message = ''Waiting on a conditional variable failed ('' @ func @ '': '' @ se ret @ '').'',
         error_format = None, error_data = None\<rparr>]\<rparr>"
  unfolding SR_ERRINFO_COND_def sr_errinfo_new_def sr_errinfo_add_def vasprintf_cond
  by simp

text \<open>
  C2: for every return value \<open>ret\<close> of the failed primitive, \<open>SR_ERRINFO_LOCK\<close> and
  \<open>SR_ERRINFO_COND\<close> each append one record to the chain, and that record has the timeout
  kind exactly when \<open>ret\<close> is \<open>ETIMEDOUT\<close> and the internal-error kind exactly when it is not.
\<close>

theorem C2_lock_cond_classification:
  "(\<exists>r. fst (SR_ERRINFO_LOCK se ei func ret st) = Some \<lparr>err = records ei @ [r]\<rparr> \<and>
        (err_code r = SR_ERR_TIME_OUT \<longleftrightarrow> ret = ETIMEDOUT) \<and>
        (err_code r = SR_ERR_INTERNAL \<longleftrightarrow> ret \<noteq> ETIMEDOUT)) \<and>
   (\<exists>r. fst (SR_ERRINFO_COND se ei func ret st) = Some \<lparr>err = records ei @ [r]\<rparr> \<and>
        (err_code r = SR_ERR_TIME_OUT \<longleftrightarrow> ret = ETIMEDOUT) \<and>
        (err_code r = SR_ERR_INTERNAL \<longleftrightarrow> ret \<noteq> ETIMEDOUT))"
  unfolding SR_ERRINFO_LOCK_chain SR_ERRINFO_COND_chain by simp

theorem C2_lock_cond_classification_witness:
  "map err_code (records (fst
      (SR_ERRINFO_LOCK strerror_glibc None ''pthread_mutex_timedlock'' ETIMEDOUT st0))) =
     [SR_ERR_TIME_OUT] \<and>
   map err_code (records (fst
      (SR_ERRINFO_COND strerror_glibc None ''pthread_cond_timedwait'' 22 st0))) =
     [SR_ERR_INTERNAL]"
  using C2_lock_cond_classification [of strerror_glibc None "''pthread_mutex_timedlock''" ETIMEDOUT st0]
    C2_lock_cond_classification [of strerror_glibc None "''pthread_cond_timedwait''" 22 st0]
  by (auto simp add: records_simps ETIMEDOUT_def)

text \<open>
  C3, as stated, fails: the record of a lock-acquisition timeout and the record of a
  condition-wait timeout carry the same code, and so do the records of the two failures
  that are not timeouts (here with return value 22, \<open>EINVAL\<close>).
\<close>

theorem C3_same_code_counterexample:
  "map err_code (records (fst
      (SR_ERRINFO_LOCK strerror_glibc None ''pthread_mutex_timedlock'' ETIMEDOUT st0))) =
   map err_code (records (fst
      (SR_ERRINFO_COND strerror_glibc None ''pthread_cond_timedwait'' ETIMEDOUT st0))) \<and>
   map err_code (records (fst
      (SR_ERRINFO_LOCK strerror_glibc None ''pthread_mutex_lock'' 22 st0))) =
   map err_code (records (fst
      (SR_ERRINFO_COND strerror_glibc None ''pthread_cond_wait'' 22 st0)))"
  by (simp add: SR_ERRINFO_LOCK_chain SR_ERRINFO_COND_chain records_simps)

text \<open>
  C3, amended: lock-acquisition and condition-wait failures share two kinds. For the same
  return value the record of \<open>SR_ERRINFO_LOCK\<close> and the record of \<open>SR_ERRINFO_COND\<close> carry the
  same code, which is the timeout kind exactly when the return value is \<open>ETIMEDOUT\<close> and the
  internal-error kind otherwise; the two kinds are distinct. The two records differ in their
  message text and in nothing else: they carry the same payload (none), and putting the
  message of the second into the first gives the second.
\<close>

theorem C3_lock_cond_share_codes:
  "\<exists>r1 r2.
     fst (SR_ERRINFO_LOCK se ei func ret st) = Some \<lparr>err = records ei @ [r1]\<rparr> \<and>
     fst (SR_ERRINFO_COND se' ei' func' ret st') = Some \<lparr>err = records ei' @ [r2]\<rparr> \<and>
     err_code r1 = err_code r2 \<and>
     (err_code r1 = SR_ERR_TIME_OUT \<longleftrightarrow> ret = ETIMEDOUT) \<and>
     (err_code r1 = SR_ERR_TIME_OUT \<or> err_code r1 = SR_ERR_INTERNAL) \<and>
     SR_ERR_TIME_OUT \<noteq> SR_ERR_INTERNAL \<and>
     message r1 \<noteq> message r2 \<and>
     error_format r1 = error_format r2 \<and>
     error_data r1 = error_data r2 \<and>
     r1\<lparr>message := message r2\<rparr> = r2"
  unfolding SR_ERRINFO_LOCK_chain SR_ERRINFO_COND_chain by simp

theorem C3_lock_cond_share_codes_witness:
  "map err_code (records (fst
      (SR_ERRINFO_LOCK strerror_glibc None ''pthread_mutex_timedlock'' ETIMEDOUT st0))) =
   map err_code (records (fst
      (SR_ERRINFO_COND strerror_glibc None ''pthread_cond_timedwait'' ETIMEDOUT st0))) \<and>
   map message (records (fst
      (SR_ERRINFO_LOCK strerror_glibc None ''pthread_mutex_timedlock'' ETIMEDOUT st0))) \<noteq>
   map message (records (fst
      (SR_ERRINFO_COND strerror_glibc None ''pthread_cond_timedwait'' ETIMEDOUT st0))) \<and>
   map error_format (records (fst
      (SR_ERRINFO_LOCK strerror_glibc None ''pthread_mutex_timedlock'' ETIMEDOUT st0))) =
   map error_format (records (fst
      (SR_ERRINFO_COND strerror_glibc None ''pthread_cond_timedwait'' ETIMEDOUT st0))) \<and>
   map error_data (records (fst
      (SR_ERRINFO_LOCK strerror_glibc None ''pthread_mutex_timedlock'' ETIMEDOUT st0))) =
   map error_data (records (fst
      (SR_ERRINFO_COND strerror_glibc None ''pthread_cond_timedwait'' ETIMEDOUT st0)))"
  using C3_lock_cond_share_codes [of strerror_glibc None "''pthread_mutex_timedlock''" ETIMEDOUT st0
      strerror_glibc None "''pthread_cond_timedwait''" st0]
  by (auto simp add: records_simps)

section \<open>Collapse at the API boundary\<close>

text \<open>
  C1: for every session and chain, \<open>sr_api_ret\<close> returns the success status when the chain
  is absent or empty and leaves the chain stored on the session empty; for a chain that is
  not empty it returns the code of the first record, whatever the later records are, and
  stores the chain on the session.
\<close>

theorem C1_api_ret_first_record:
  "(records err_info = [] \<longrightarrow>
      fst (sr_api_ret session err_info st) = SR_ERR_OK \<and>
      records (sess_err_info (fst (snd (sr_api_ret session err_info st)))) = []) \<and>
   (\<forall>e es. records err_info = e # es \<longrightarrow>
      fst (sr_api_ret session err_info st) = err_code e \<and>
      sess_err_info (fst (snd (sr_api_ret session err_info st))) = err_info)"
  by (simp add: sr_api_ret_def records_simps)

theorem C1_api_ret_first_record_witness:
  "fst (sr_api_ret session0 None st0) = SR_ERR_OK \<and>
   records (sess_err_info (fst (snd (sr_api_ret session0 None st0)))) = [] \<and>
   fst (sr_api_ret session0 (Some \<lparr>err = []\<rparr>) st0) = SR_ERR_OK \<and>
   records (sess_err_info (fst (snd (sr_api_ret session0 (Some \<lparr>err = []\<rparr>) st0)))) = [] \<and>
   fst (sr_api_ret session0 (Some \<lparr>err = [rec_val, rec_int, rec_sys]\<rparr>) st0) =
     SR_ERR_VALIDATION_FAILED"
  using C1_api_ret_first_record [of None session0 st0]
    C1_api_ret_first_record [of "Some \<lparr>err = []\<rparr>" session0 st0]
    C1_api_ret_first_record [of "Some \<lparr>err = [rec_val, rec_int, rec_sys]\<rparr>" session0 st0]
  by (simp add: records_simps rec_val_def)

text \<open>
  C4: whenever the condition of \<open>SR_CHECK_ARG_APIRET\<close> holds, the macro appends exactly one
  record, of the invalid-argument kind and with a message that names the function, to the
  chain, hands that chain to \<open>sr_api_ret\<close> and returns what \<open>sr_api_ret\<close> returns; the rest of
  the function has no part in the result. At the top of a function, where the chain is
  still empty, the status returned is the invalid-argument code.
\<close>

theorem C4_check_arg_apiret:
  "cond \<Longrightarrow>
   SR_CHECK_ARG_APIRET cond session err_info func rest st =
     sr_api_ret session
       (Some \<lparr>err = records err_info @
          [\<lparr>err_code = SR_ERR_INVAL_ARG,
            message = ''Invalid arguments for function '' @ [CHR 0x22] @ func @ [CHR 0x22] @ ''.'',
            error_format = None, error_data = None\<rparr>]\<rparr>)
       (sr_log_msg False SR_LL_ERR
          (''Invalid arguments for function '' @ [CHR 0x22] @ func @ [CHR 0x22] @ ''.'') st) \<and>
   SR_CHECK_ARG_APIRET cond session err_info func rest st =
     SR_CHECK_ARG_APIRET cond session err_info func rest' st \<and>
   (records err_info = [] \<longrightarrow>
      fst (SR_CHECK_ARG_APIRET cond session err_info func rest st) = SR_ERR_INVAL_ARG)"
  unfolding SR_CHECK_ARG_APIRET_def sr_errinfo_new_def sr_errinfo_add_def vasprintf_invalid_arguments
  by (simp add: sr_api_ret_def records_simps)

theorem C4_check_arg_apiret_witness:
  "SR_CHECK_ARG_APIRET True session0 None ''sr_get_item'' rest_ok st0 =
     SR_CHECK_ARG_APIRET True session0 None ''sr_get_item'' rest_sys st0 \<and>
   fst (SR_CHECK_ARG_APIRET True session0 None ''sr_get_item'' rest_ok st0) = SR_ERR_INVAL_ARG \<and>
   map message (records (sess_err_info (fst (snd
       (SR_CHECK_ARG_APIRET True session0 None ''sr_get_item'' rest_ok st0))))) =
     [''Invalid arguments for function '' @ [CHR 0x22] @ ''sr_get_item'' @ [CHR 0x22] @ ''.'']"
proof -
  note h = C4_check_arg_apiret [of True session0 None "''sr_get_item''" rest_ok st0 rest_sys, OF TrueI]
  from h have same: "SR_CHECK_ARG_APIRET True session0 None ''sr_get_item'' rest_ok st0 =
      SR_CHECK_ARG_APIRET True session0 None ''sr_get_item'' rest_sys st0"
    by blast
  have status: "fst (SR_CHECK_ARG_APIRET True session0 None ''sr_get_item'' rest_ok st0) =
      SR_ERR_INVAL_ARG"
    by (rule h [THEN conjunct2, THEN conjunct2, rule_format, OF records_simps(1)])
  from h have collapse: "SR_CHECK_ARG_APIRET True session0 None ''sr_get_item'' rest_ok st0 =
      sr_api_ret session0
       (Some \<lparr>err = records None @
          [\<lparr>err_code = SR_ERR_INVAL_ARG,
            message = ''Invalid arguments for function '' @ [CHR 0x22] @ ''sr_get_item'' @ [CHR 0x22] @ ''.'',
            error_format = None, error_data = None\<rparr>]\<rparr>)
       (sr_log_msg False SR_LL_ERR
          (''Invalid arguments for function '' @ [CHR 0x22] @ ''sr_get_item'' @ [CHR 0x22] @ ''.'') st0)"
    by blast
  have stored: "map message (records (sess_err_info (fst (snd
       (SR_CHECK_ARG_APIRET True session0 None ''sr_get_item'' rest_ok st0))))) =
     [''Invalid arguments for function '' @ [CHR 0x22] @ ''sr_get_item'' @ [CHR 0x22] @ ''.'']"
    unfolding collapse by (simp add: sr_api_ret_def records_simps)
  show ?thesis using same status stored by blast
qed

section \<open>Merging\<close>

text \<open>
  C5: merging a source chain B of k records into a destination chain A of n records gives
  a destination of n + k records, the records of A first and then the records of B, each
  in its own order. The records are moved: the source holds none afterwards, and source
  and destination together hold exactly the records they held before. Merging an empty or
  absent B leaves A as it was, and merging a B that has records into a destination that
  does not exist creates the destination with the records of B.
\<close>

theorem C5_merge_moves_records:
  "records (fst (sr_errinfo_merge A B)) = records A @ records B \<and>
   err_count (fst (sr_errinfo_merge A B)) = err_count A + err_count B \<and>
   records (snd (sr_errinfo_merge A B)) = [] \<and>
   mset (records (fst (sr_errinfo_merge A B))) + mset (records (snd (sr_errinfo_merge A B))) =
     mset (records A) + mset (records B) \<and>
   (records B = [] \<longrightarrow> fst (sr_errinfo_merge A B) = A) \<and>
   (records B \<noteq> [] \<longrightarrow> fst (sr_errinfo_merge None B) = Some \<lparr>err = records B\<rparr>)"
  by (simp add: sr_errinfo_merge_def err_count_def records_simps)

theorem C5_merge_moves_records_witness:
  "records (fst (sr_errinfo_merge (Some \<lparr>err = [rec_sys, rec_val]\<rparr>) (Some \<lparr>err = [rec_int]\<rparr>))) =
     [rec_sys, rec_val, rec_int] \<and>
   fst (sr_errinfo_merge (Some \<lparr>err = [rec_sys, rec_val]\<rparr>) None) =
     Some \<lparr>err = [rec_sys, rec_val]\<rparr> \<and>
   fst (sr_errinfo_merge None (Some \<lparr>err = [rec_int]\<rparr>)) = Some \<lparr>err = [rec_int]\<rparr>"
  using C5_merge_moves_records [of "Some \<lparr>err = [rec_sys, rec_val]\<rparr>" "Some \<lparr>err = [rec_int]\<rparr>"]
    C5_merge_moves_records [of "Some \<lparr>err = [rec_sys, rec_val]\<rparr>" None]
  by (simp add: records_simps)

section \<open>Sinks\<close>

text \<open>
  C6: a call of \<open>sr_log\<close> renders its message at most once, and each of the three sinks
  receives that one rendered text exactly when the level of the call passes the sink's own
  threshold. With the console threshold at warning and the syslog threshold at error, a
  message logged at warning reaches the console sink and does not reach the syslog sink.
\<close>

theorem C6_sr_log_sinks:
  "renders (sr_log ll format vargs st) \<le> renders st + 1 \<and>
   stderr_out (sr_log ll format vargs st) =
     stderr_out st @ (if admits (sr_stderr_ll st) ll then [(ll, vasprintf format vargs)] else []) \<and>
   syslog_out (sr_log ll format vargs st) =
     syslog_out st @ (if admits (sr_syslog_ll st) ll then [(ll, vasprintf format vargs)] else []) \<and>
   lcb_out (sr_log ll format vargs st) =
     lcb_out st @ (if admits (sr_lcb_ll st) ll then [(False, ll, vasprintf format vargs)] else []) \<and>
   stderr_out (sr_log SR_LL_WRN format vargs
       (st\<lparr>sr_stderr_ll := SR_LL_WRN, sr_syslog_ll := SR_LL_ERR\<rparr>)) =
     stderr_out st @ [(SR_LL_WRN, vasprintf format vargs)] \<and>
   syslog_out (sr_log SR_LL_WRN format vargs
       (st\<lparr>sr_stderr_ll := SR_LL_WRN, sr_syslog_ll := SR_LL_ERR\<rparr>)) =
     syslog_out st"
  by (simp add: sr_log_def sr_log_msg_def sr_lcb_ll_def admits_def)

theorem C6_sr_log_sinks_witness:
  "stderr_out (sr_log SR_LL_WRN ''%s is deprecated.'' [Str ''sr_get_item'']
      (st0\<lparr>sr_stderr_ll := SR_LL_WRN, sr_syslog_ll := SR_LL_ERR\<rparr>)) =
     [(SR_LL_WRN, ''sr_get_item is deprecated.'')] \<and>
   syslog_out (sr_log SR_LL_WRN ''%s is deprecated.'' [Str ''sr_get_item'']
      (st0\<lparr>sr_stderr_ll := SR_LL_WRN, sr_syslog_ll := SR_LL_ERR\<rparr>)) = []"
  using C6_sr_log_sinks [of SR_LL_WRN "''%s is deprecated.''" "[Str ''sr_get_item'']" st0]
  by (simp add: st0_def)

end
